theory Spec2Isabelle
  imports Complex_Main
begin

section \<open>Python values, errors and sequencing\<close>

text \<open>
  The script \<^verbatim>\<open>gen_data.py\<close> builds a list of dictionaries whose values are Python
  ints, strs and floats, and hands it to two serializers. Python values are modelled by
  the datatype below. A dictionary is an association list in insertion order (a Python
  dict literal keeps the order in which its keys are written).

  Double-precision arithmetic is not modelled: the type \<open>'f\<close> stands for Python's
  \<^verbatim>\<open>float\<close>, and the two float operations the script uses come in as a parameter
  (record \<open>floats\<close> below). Every theorem holds for every such parameter.
\<close>

datatype 'f pyval =
    PyNone
  | PyBool bool
  | PyInt int
  | PyFloat 'f
  | PyStr string
  | PyList "'f pyval list"
  | PyDict "(string \<times> 'f pyval) list"

type_synonym 'f pydict = "(string \<times> 'f pyval) list"

datatype pytype = TNone | TBool | TInt | TFloat | TStr | TList | TDict

fun type_of :: "'f pyval \<Rightarrow> pytype" where
  "type_of PyNone = TNone"
| "type_of (PyBool b) = TBool"
| "type_of (PyInt i) = TInt"
| "type_of (PyFloat x) = TFloat"
| "type_of (PyStr s) = TStr"
| "type_of (PyList xs) = TList"
| "type_of (PyDict kvs) = TDict"

text \<open>The exceptions that the library calls of the script can raise.\<close>

datatype error = ValueError | IndexError | ParseError | OSError

text \<open>
  A computation reads and advances a state and either raises or returns a value:
  \<open>and_then m f\<close> runs \<open>m\<close>, and \<open>f\<close> on its result unless \<open>m\<close> raised.
\<close>

definition and_then ::
  "('s \<Rightarrow> 'e + 'a \<times> 's) \<Rightarrow> ('a \<Rightarrow> 's \<Rightarrow> 'e + 'b \<times> 's) \<Rightarrow> 's \<Rightarrow> 'e + 'b \<times> 's" where
  "and_then m f s = (case m s of Inl e \<Rightarrow> Inl e | Inr (x, s') \<Rightarrow> f x s')"

definition ret :: "'a \<Rightarrow> 's \<Rightarrow> 'e + 'a \<times> 's" where
  "ret x s = Inr (x, s)"

section \<open>The random source\<close>

text \<open>
  The script draws from two generators: the module-level generator of \<^verbatim>\<open>random\<close>
  and the generator of the \<^verbatim>\<open>Faker()\<close> instance. Neither library is part of the
  repository. Their state is modelled as an outcome tape with a read position:
  \<^item> \<open>rand_tape\<close>, \<open>rand_pos\<close>: the raw outcomes of the elementary draws of
    \<^verbatim>\<open>random\<close>, and how many have been consumed;
  \<^item> \<open>fake_text\<close>, \<open>fake_time\<close>, \<open>fake_pos\<close>: what the Faker provider called at
    position \<open>i\<close> produces (the string of a text provider, the raw offset used by
    \<^verbatim>\<open>date_time_between\<close>), and how many provider calls have been made.
  As the tape ranges over all functions, every sequence of outcomes the libraries allow
  is covered.
\<close>

record source =
  rand_tape :: "nat \<Rightarrow> nat"
  rand_pos :: nat
  fake_text :: "nat \<Rightarrow> string"
  fake_time :: "nat \<Rightarrow> nat"
  fake_pos :: nat

text \<open>The float operations of the script: \<^verbatim>\<open>a + (b - a) * random()\<close> for a raw
  outcome of \<^verbatim>\<open>random()\<close>, and the builtin \<^verbatim>\<open>round(x, ndigits)\<close>.\<close>

record 'f floats =
  fl_uniform :: "int \<Rightarrow> int \<Rightarrow> nat \<Rightarrow> 'f"
  fl_round :: "'f \<Rightarrow> int \<Rightarrow> 'f"

subsection \<open>Module \<^verbatim>\<open>random\<close>\<close>

text \<open>One elementary draw: the raw outcome at the read position.\<close>

definition draw :: "source \<Rightarrow> nat \<times> source" where
  "draw s = (rand_tape s (rand_pos s), s\<lparr>rand_pos := Suc (rand_pos s)\<rparr>)"

text \<open>\<^verbatim>\<open>_randbelow(n)\<close>, for \<open>n > 0\<close>: an index below \<open>n\<close>. How the library maps raw
  bits to the index is its own business; the model reduces the raw outcome modulo \<open>n\<close>,
  which yields every index below \<open>n\<close> and nothing else.\<close>

definition randbelow :: "nat \<Rightarrow> source \<Rightarrow> nat \<times> source" where
  "randbelow n s = (case draw s of (r, s') \<Rightarrow> (r mod n, s'))"

text \<open>\<^verbatim>\<open>random.randint(a, b)\<close> is \<^verbatim>\<open>randrange(a, b + 1)\<close>: it raises
  \<^verbatim>\<open>ValueError\<close> on an empty range and returns \<^verbatim>\<open>a + _randbelow(b + 1 - a)\<close>
  otherwise.\<close>

definition randint :: "int \<Rightarrow> int \<Rightarrow> source \<Rightarrow> error + int \<times> source" where
  "randint a b s =
     (let width = b + 1 - a in
      if 0 < width then (case randbelow (nat width) s of (r, s') \<Rightarrow> Inr (a + int r, s'))
      else Inl ValueError)"

text \<open>\<^verbatim>\<open>random.choice(seq)\<close> raises \<^verbatim>\<open>IndexError\<close> on an empty sequence and returns
  \<^verbatim>\<open>seq[_randbelow(len(seq))]\<close> otherwise.\<close>

definition choice :: "'a list \<Rightarrow> source \<Rightarrow> error + 'a \<times> source" where
  "choice seq s =
     (if seq = [] then Inl IndexError
      else (case randbelow (length seq) s of (r, s') \<Rightarrow> Inr (seq ! r, s')))"

text \<open>\<^verbatim>\<open>random.choices(population, k=k)\<close> without weights: \<open>k\<close> independent draws of
  an index into the population, with replacement. An empty population raises
  \<^verbatim>\<open>IndexError\<close> at the first draw.\<close>

fun choices :: "'a list \<Rightarrow> nat \<Rightarrow> source \<Rightarrow> error + 'a list \<times> source" where
  "choices population 0 s = Inr ([], s)"
| "choices population (Suc k) s =
     (if population = [] then Inl IndexError
      else (case randbelow (length population) s of (r, s') \<Rightarrow>
        (case choices population k s' of
           Inl e \<Rightarrow> Inl e
         | Inr (xs, s'') \<Rightarrow> Inr (population ! r # xs, s''))))"

text \<open>\<^verbatim>\<open>random.uniform(a, b)\<close> consumes one draw and cannot raise.\<close>

definition uniform :: "'f floats \<Rightarrow> int \<Rightarrow> int \<Rightarrow> source \<Rightarrow> error + 'f \<times> source" where
  "uniform fp a b s = (case draw s of (r, s') \<Rightarrow> Inr (fl_uniform fp a b r, s'))"

text \<open>The builtin \<^verbatim>\<open>round(x, ndigits)\<close> on a float.\<close>

definition round_float :: "'f floats \<Rightarrow> 'f \<Rightarrow> int \<Rightarrow> 'f" where
  "round_float fp x ndigits = fl_round fp x ndigits"

subsection \<open>Faker providers\<close>

text \<open>A text provider (\<^verbatim>\<open>name\<close>, \<^verbatim>\<open>country\<close>, \<^verbatim>\<open>image_url\<close>) returns the
  string of the tape at the current provider position. The word lists of the providers
  are not in the repository, so the strings are unconstrained.\<close>

definition fake_provider :: "source \<Rightarrow> error + string \<times> source" where
  "fake_provider s = Inr (fake_text s (fake_pos s), s\<lparr>fake_pos := Suc (fake_pos s)\<rparr>)"

definition faker_name :: "source \<Rightarrow> error + string \<times> source" where
  "faker_name = fake_provider"

definition faker_country :: "source \<Rightarrow> error + string \<times> source" where
  "faker_country = fake_provider"

definition faker_image_url :: "source \<Rightarrow> error + string \<times> source" where
  "faker_image_url = fake_provider"

subsection \<open>Instants and their ISO 8601 text\<close>

text \<open>
  A naive \<^verbatim>\<open>datetime\<close> is modelled by the number of microseconds between
  1970-01-01T00:00:00 and it; instants compare as these numbers do. Instants are taken
  to lie in the range that \<^verbatim>\<open>datetime\<close> supports (years 1 to 9999).
\<close>

type_synonym datetime = int

text \<open>The decimal digits of \<open>n\<close>, zero-padded to width \<open>w\<close> (\<^verbatim>\<open>%0wd\<close>, for a number
  of at most \<open>w\<close> digits).\<close>

fun digits_fixed :: "nat \<Rightarrow> nat \<Rightarrow> string" where
  "digits_fixed 0 n = []"
| "digits_fixed (Suc w) n = digits_fixed w (n div 10) @ [''0123456789'' ! (n mod 10)]"

text \<open>Year, month and day of the proleptic Gregorian calendar for a number of days
  since 1970-01-01 (eras of 400 years that start on 1 March).\<close>

definition civil_from_days :: "int \<Rightarrow> int \<times> int \<times> int" where
  "civil_from_days z0 =
     (let z = z0 + 719468;
          era = z div 146097;
          doe = z - era * 146097;
          yoe = (doe - doe div 1460 + doe div 36524 - doe div 146096) div 365;
          doy = doe - (365 * yoe + yoe div 4 - yoe div 100);
          mp = (5 * doy + 2) div 153;
          d = doy - (153 * mp + 2) div 5 + 1;
          m = (if mp < 10 then mp + 3 else mp - 9);
          y = yoe + era * 400 + (if m \<le> 2 then 1 else 0)
      in (y, m, d))"

text \<open>\<^verbatim>\<open>datetime.isoformat()\<close>: \<^verbatim>\<open>YYYY-MM-DDTHH:MM:SS\<close>, followed by
  \<^verbatim>\<open>.ffffff\<close> when the microsecond is not zero.\<close>

definition isoformat :: "datetime \<Rightarrow> string" where
  "isoformat t =
     (let secs = t div 1000000;
          us = t mod 1000000;
          sod = secs mod 86400
      in (case civil_from_days (secs div 86400) of (y, m, d) \<Rightarrow>
          digits_fixed 4 (nat y) @ ''-'' @ digits_fixed 2 (nat m) @ ''-'' @ digits_fixed 2 (nat d)
          @ ''T'' @ digits_fixed 2 (nat (sod div 3600))
          @ '':'' @ digits_fixed 2 (nat (sod mod 3600 div 60))
          @ '':'' @ digits_fixed 2 (nat (sod mod 60))
          @ (if us = 0 then [] else ''.'' @ digits_fixed 6 (nat us))))"

subsection \<open>\<^verbatim>\<open>date_time_between\<close>\<close>

text \<open>
  Faker resolves a relative date expression against the clock. Of its expressions only
  the two that the script passes are modelled: \<^verbatim>\<open>"now"\<close> is the clock reading and
  \<^verbatim>\<open>"-5y"\<close> lies five years of 365.24 days before it; any other string is a
  \<^verbatim>\<open>ParseError\<close> here. The clock reading \<open>now\<close> is one value for the whole run.
\<close>

definition year_us :: int where
  "year_us = 31556736000000"

definition parse_date_time :: "datetime \<Rightarrow> string \<Rightarrow> error + datetime" where
  "parse_date_time now v =
     (if v = ''now'' then Inr now
      else if v = ''-5y'' then Inr (now - 5 * year_us)
      else Inl ParseError)"

text \<open>\<^verbatim>\<open>faker.date_time_between(start_date, end_date)\<close>: an instant of the window
  between the two resolved bounds, chosen by the raw offset of the tape (a window that
  is empty or a single instant yields its start).\<close>

definition date_time_between ::
  "string \<Rightarrow> string \<Rightarrow> datetime \<Rightarrow> source \<Rightarrow> error + datetime \<times> source" where
  "date_time_between start_date end_date now s =
     (case parse_date_time now start_date of
        Inl e \<Rightarrow> Inl e
      | Inr lo \<Rightarrow>
        (case parse_date_time now end_date of
           Inl e \<Rightarrow> Inl e
         | Inr hi \<Rightarrow>
             Inr (if hi \<le> lo then lo
                  else lo + int (fake_time s (fake_pos s) mod nat (hi - lo + 1)),
                  s\<lparr>fake_pos := Suc (fake_pos s)\<rparr>)))"

section \<open>The script\<close>

subsection \<open>Constants and helper functions\<close>

definition NUM_AGENTS :: int where
  "NUM_AGENTS = 25"

definition NUM_CLIENTS :: int where
  "NUM_CLIENTS = 100"

definition NUM_TRANSACTIONS :: nat where
  "NUM_TRANSACTIONS = 1000"

text \<open>\<^verbatim>\<open>def random_datetime(start, end): return faker.date_time_between(start_date=start, end_date=end)\<close>\<close>

definition random_datetime ::
  "string \<Rightarrow> string \<Rightarrow> datetime \<Rightarrow> source \<Rightarrow> error + datetime \<times> source" where
  "random_datetime start end now = date_time_between start end now"

definition ascii_uppercase :: string where
  "ascii_uppercase = ''ABCDEFGHIJKLMNOPQRSTUVWXYZ''"

definition digits :: string where
  "digits = ''0123456789''"

text \<open>A Python string as a sequence: its items are its one-character strings.\<close>

definition str_items :: "string \<Rightarrow> string list" where
  "str_items s = map (\<lambda>c. [c]) s"

text \<open>\<^verbatim>\<open>sep.join(parts)\<close>\<close>

fun join :: "string \<Rightarrow> string list \<Rightarrow> string" where
  "join sep [] = []"
| "join sep [x] = x"
| "join sep (x # y # ys) = x @ sep @ join sep (y # ys)"

text \<open>\<^verbatim>\<open>def generate_transaction_code():
    return f"TXN-{''.join(random.choices(string.ascii_uppercase + string.digits, k=8))}"\<close>\<close>

definition generate_transaction_code :: "source \<Rightarrow> error + string \<times> source" where
  "generate_transaction_code =
     and_then (choices (str_items (ascii_uppercase @ digits)) 8)
       (\<lambda>picked. ret (''TXN-'' @ join [] picked))"

subsection \<open>The transaction table\<close>

text \<open>
  One dictionary of the list comprehension, for loop index \<open>i\<close>. The values of a dict
  literal are evaluated in the order in which they are written, so the draws happen in
  the order of the fields.
\<close>

definition transaction ::
  "'f floats \<Rightarrow> datetime \<Rightarrow> int \<Rightarrow> source \<Rightarrow> error + 'f pydict \<times> source" where
  "transaction fp now i =
     and_then generate_transaction_code (\<lambda>transaction_code.
     and_then (randint 1 NUM_CLIENTS) (\<lambda>client_id.
     and_then faker_name (\<lambda>client_full_name.
     and_then (randint 1 NUM_AGENTS) (\<lambda>agent_id.
     and_then faker_name (\<lambda>agent_full_name.
     and_then (random_datetime ''-5y'' ''now'' now) (\<lambda>transaction_date.
     and_then (uniform fp 10 10000) (\<lambda>amount.
     and_then (choice [''USD'', ''EUR'', ''GBP'', ''INR'', ''AUD'', ''CAD'']) (\<lambda>currency.
     and_then faker_country (\<lambda>original_country.
     and_then faker_country (\<lambda>destination_country.
     and_then (uniform fp 1 50) (\<lambda>fee.
     and_then (choice [''Completed'', ''Pending'', ''Failed'', ''Cancelled'']) (\<lambda>transaction_status.
     and_then (random_datetime ''-5y'' ''now'' now) (\<lambda>status_date.
     and_then (choice [''Send'', ''Receive'', ''Other'']) (\<lambda>category.
     and_then faker_image_url (\<lambda>icon.
     and_then (choice [0, 1]) (\<lambda>is_fraudulent.
     ret
       [(''TransactionID'', PyInt (i + 1)),
        (''TransactionCode'', PyStr transaction_code),
        (''ClientID'', PyInt client_id),
        (''ClientFullName'', PyStr client_full_name),
        (''AgentID'', PyInt agent_id),
        (''AgentFullName'', PyStr agent_full_name),
        (''TransactionDate'', PyStr (isoformat transaction_date)),
        (''Amount'', PyFloat (round_float fp amount 2)),
        (''Currency'', PyStr currency),
        (''OriginalCountry'', PyStr original_country),
        (''DestinationCountry'', PyStr destination_country),
        (''Fee'', PyFloat (round_float fp fee 2)),
        (''TransactionStatus'', PyStr transaction_status),
        (''StatusDate'', PyStr (isoformat status_date)),
        (''Category'', PyStr category),
        (''Icon'', PyStr icon),
        (''IsFraudulent'', PyInt is_fraudulent)]))))))))))))))))"

text \<open>A list comprehension \<^verbatim>\<open>[f(i) for i in xs]\<close> whose body draws from the source:
  the items are computed from left to right, and an exception ends the comprehension.\<close>

fun comprehension ::
  "(int \<Rightarrow> source \<Rightarrow> error + 'a \<times> source) \<Rightarrow> int list \<Rightarrow> source \<Rightarrow> error + 'a list \<times> source" where
  "comprehension f [] s = Inr ([], s)"
| "comprehension f (i # is) s =
     (case f i s of
        Inl e \<Rightarrow> Inl e
      | Inr (x, s') \<Rightarrow>
        (case comprehension f is s' of
           Inl e \<Rightarrow> Inl e
         | Inr (xs, s'') \<Rightarrow> Inr (x # xs, s'')))"

text \<open>\<^verbatim>\<open>range(n)\<close>\<close>

definition py_range :: "nat \<Rightarrow> int list" where
  "py_range n = map int [0..<n]"

text \<open>\<^verbatim>\<open>transactions_data = [{...} for i in range(NUM_TRANSACTIONS)]\<close>, with the count
  as a parameter \<open>n\<close>.\<close>

definition transactions_data ::
  "'f floats \<Rightarrow> datetime \<Rightarrow> nat \<Rightarrow> source \<Rightarrow> error + 'f pydict list \<times> source" where
  "transactions_data fp now n = comprehension (transaction fp now) (py_range n)"

subsection \<open>The world of a run\<close>

text \<open>
  What a run reads and changes: the random source, the clock, the files of the working
  directory and standard output. \<open>writable p\<close> says whether opening path \<open>p\<close> for
  writing succeeds (permissions, free space); when it does not, the call raises
  \<^verbatim>\<open>OSError\<close>. An exception that reaches the top level carries the world in which it
  was raised.
\<close>

datatype 'f json =
    JNull
  | JBool bool
  | JInt int
  | JReal 'f
  | JString string
  | JArray "'f json list"
  | JObject "(string \<times> 'f json) list"

text \<open>
  The content of a file is kept as the document that the serializer wrote, not as bytes
  (quoting, escaping and the text of a float are the serializer's own): a CSV document
  is its header row and its data rows of cells, where an absent value is \<open>None\<close>; a
  JSON document is a JSON value with the indentation it was written with.
\<close>

datatype 'f file_content =
    Blank
  | Csv "string list" "'f pyval option list list"
  | Json "nat option" "'f json"

record 'f world =
  source_state :: source
  clock :: datetime
  files :: "string \<rightharpoonup> 'f file_content"
  writable :: "string \<Rightarrow> bool"
  stdout :: "string list"

type_synonym ('f, 'a) action = "'f world \<Rightarrow> (error \<times> 'f world) + 'a \<times> 'f world"

text \<open>Running a computation over the random source inside the world.\<close>

definition in_source :: "(source \<Rightarrow> error + 'a \<times> source) \<Rightarrow> ('f, 'a) action" where
  "in_source m w =
     (case m (source_state w) of
        Inl e \<Rightarrow> Inl (e, w)
      | Inr (x, s') \<Rightarrow> Inr (x, w\<lparr>source_state := s'\<rparr>))"

subsection \<open>\<^verbatim>\<open>pandas.DataFrame\<close> and \<^verbatim>\<open>to_csv\<close>\<close>

record 'f dataframe =
  columns :: "string list"
  rows :: "'f pyval option list list"

text \<open>The items of a list in the order of their first occurrence.\<close>

fun unique :: "'a list \<Rightarrow> 'a list" where
  "unique [] = []"
| "unique (x # xs) = x # filter (\<lambda>y. y \<noteq> x) (unique xs)"

text \<open>\<^verbatim>\<open>pd.DataFrame(list_of_dicts)\<close>: the columns are the keys of the dictionaries in
  the order of their first occurrence, and each dictionary is one row, with no value
  (NaN) where it lacks a key.\<close>

definition DataFrame :: "'f pydict list \<Rightarrow> 'f dataframe" where
  "DataFrame data =
     (let cols = unique (concat (map (map fst) data))
      in \<lparr>columns = cols, rows = map (\<lambda>d. map (map_of d) cols) data\<rparr>)"

text \<open>\<^verbatim>\<open>df.to_csv(path, index=index)\<close>: a header row of the column names and one row
  per data row; with \<^verbatim>\<open>index=True\<close> every row starts with its row label (the header
  with an empty label).\<close>

definition to_csv :: "'f dataframe \<Rightarrow> string \<Rightarrow> bool \<Rightarrow> ('f, unit) action" where
  "to_csv df path index w =
     (if \<not> writable w path then Inl (OSError, w)
      else
        let header = (if index then [] # columns df else columns df);
            body = (if index
                    then map (\<lambda>(i, r). Some (PyInt (int i)) # r) (enumerate 0 (rows df))
                    else rows df)
        in Inr ((), w\<lparr>files := (files w)(path \<mapsto> Csv header body)\<rparr>))"

subsection \<open>Module \<^verbatim>\<open>json\<close>\<close>

text \<open>The conversion table of the encoder and of the decoder.\<close>

primrec json_of :: "'f pyval \<Rightarrow> 'f json" where
  "json_of PyNone = JNull"
| "json_of (PyBool b) = JBool b"
| "json_of (PyInt i) = JInt i"
| "json_of (PyFloat x) = JReal x"
| "json_of (PyStr s) = JString s"
| "json_of (PyList xs) = JArray (map json_of xs)"
| "json_of (PyDict kvs) = JObject (map (map_prod id json_of) kvs)"

primrec py_of :: "'f json \<Rightarrow> 'f pyval" where
  "py_of JNull = PyNone"
| "py_of (JBool b) = PyBool b"
| "py_of (JInt i) = PyInt i"
| "py_of (JReal x) = PyFloat x"
| "py_of (JString s) = PyStr s"
| "py_of (JArray xs) = PyList (map py_of xs)"
| "py_of (JObject kvs) = PyDict (map (map_prod id py_of) kvs)"

text \<open>\<^verbatim>\<open>open(path, "w")\<close> creates or truncates the file; the handle is the path.\<close>

definition open_w :: "string \<Rightarrow> ('f, string) action" where
  "open_w path w =
     (if \<not> writable w path then Inl (OSError, w)
      else Inr (path, w\<lparr>files := (files w)(path \<mapsto> Blank)\<rparr>))"

text \<open>\<^verbatim>\<open>json.dump(obj, f, indent=indent)\<close>\<close>

definition json_dump :: "'f pyval \<Rightarrow> string \<Rightarrow> nat option \<Rightarrow> ('f, unit) action" where
  "json_dump obj f indent w = Inr ((), w\<lparr>files := (files w)(f \<mapsto> Json indent (json_of obj))\<rparr>)"

text \<open>\<^verbatim>\<open>json.load\<close> of a file content: a JSON document decodes to a Python value,
  anything else is a \<^verbatim>\<open>JSONDecodeError\<close> (a \<^verbatim>\<open>ValueError\<close>).\<close>

fun json_load :: "'f file_content \<Rightarrow> error + 'f pyval" where
  "json_load (Json indent doc) = Inr (py_of doc)"
| "json_load Blank = Inl ValueError"
| "json_load (Csv header body) = Inl ValueError"

text \<open>\<^verbatim>\<open>print(line)\<close>\<close>

definition print :: "string \<Rightarrow> ('f, unit) action" where
  "print line w = Inr ((), w\<lparr>stdout := stdout w @ [line]\<rparr>)"

subsection \<open>The script from top to bottom\<close>

definition script :: "'f floats \<Rightarrow> nat \<Rightarrow> ('f, unit) action" where
  "script fp n =
     and_then (\<lambda>w. in_source (transactions_data fp (clock w) n) w) (\<lambda>transactions_data.
     and_then (ret (DataFrame transactions_data)) (\<lambda>transactions_df.
     and_then (to_csv transactions_df ''transactions_.csv'' False) (\<lambda>_.
     and_then (open_w ''transactions_.json'') (\<lambda>f.
     and_then (json_dump (PyList (map PyDict transactions_data)) f (Some 4)) (\<lambda>_.
     print ''Data generation complete. Files saved as CSV, JSON, and SQL dump.'')))))"

text \<open>The interpreter ends with exit status 0 when the script reaches its end and with
  exit status 1 when an exception is not caught. The script has no handler and no call
  of \<^verbatim>\<open>exit\<close>.\<close>

definition run :: "'f floats \<Rightarrow> nat \<Rightarrow> 'f world \<Rightarrow> int \<times> 'f world" where
  "run fp n w = (case script fp n w of Inl (e, w') \<Rightarrow> (1, w') | Inr (u, w') \<Rightarrow> (0, w'))"

definition main :: "'f floats \<Rightarrow> 'f world \<Rightarrow> int \<times> 'f world" where
  "main fp = run fp NUM_TRANSACTIONS"

section \<open>Vocabulary of the properties\<close>

text \<open>The field names in the order of the schema table.\<close>

definition schema_fields :: "string list" where
  "schema_fields =
     [''TransactionID'', ''TransactionCode'', ''ClientID'', ''ClientFullName'', ''AgentID'',
      ''AgentFullName'', ''TransactionDate'', ''Amount'', ''Currency'', ''OriginalCountry'',
      ''DestinationCountry'', ''Fee'', ''TransactionStatus'', ''StatusDate'', ''Category'',
      ''Icon'', ''IsFraudulent'']"

text \<open>The pattern \<^verbatim>\<open>TXN-[A-Z0-9]{8}\<close>, by character codes.\<close>

definition upper_or_digit :: "char \<Rightarrow> bool" where
  "upper_or_digit c =
     (let k = (of_char c :: nat) in (65 \<le> k \<and> k \<le> 90) \<or> (48 \<le> k \<and> k \<le> 57))"

definition matches_txn_pattern :: "string \<Rightarrow> bool" where
  "matches_txn_pattern c =
     (take 4 c = ''TXN-'' \<and> length (drop 4 c) = 8 \<and> list_all upper_or_digit (drop 4 c))"

text \<open>
  Inputs on which the definitions are run: exact rational arithmetic in the place of
  double arithmetic, a clock reading (2025-11-05T00:00:00) and a source whose tapes are
  constant.
\<close>

definition exact_floats :: "rat floats" where
  "exact_floats =
     \<lparr>fl_uniform = (\<lambda>a b k. of_int a + of_int (b - a) * (of_nat (k mod 2 ^ 53) / 2 ^ 53)),
      fl_round = (\<lambda>x nd. of_int (round (x * 10 ^ nat nd)) / 10 ^ nat nd)\<rparr>"

definition now0 :: datetime where
  "now0 = 1762300800000000"

definition source0 :: source where
  "source0 =
     \<lparr>rand_tape = (\<lambda>i. 0), rand_pos = 0, fake_text = (\<lambda>i. ''Pat Doe''),
      fake_time = (\<lambda>i. 0), fake_pos = 0\<rparr>"

text \<open>The source whose two calls of \<^verbatim>\<open>date_time_between\<close> in the first record land
  on the offsets \<open>a\<close> and \<open>b\<close> from the start of the window.\<close>

definition source_dates :: "nat \<Rightarrow> nat \<Rightarrow> source" where
  "source_dates a b = source0\<lparr>fake_time := (\<lambda>i. if i = 2 then a else b)\<rparr>"

section \<open>Closed forms\<close>

text \<open>
  The draws of one record in terms of the tape: record number \<open>j\<close> of a run reads the
  sixteen positions of \<open>rand_tape\<close> and the seven positions of the Faker tape that
  follow those of the records before it.
\<close>

definition alphabet :: "string list" where
  "alphabet = str_items (ascii_uppercase @ digits)"

definition pick :: "'a list \<Rightarrow> source \<Rightarrow> nat \<Rightarrow> 'a" where
  "pick xs s j = xs ! (rand_tape s (rand_pos s + j) mod length xs)"

definition code_at :: "source \<Rightarrow> string" where
  "code_at s = ''TXN-'' @ concat (map (pick alphabet s) [0..<8])"

definition instant_at :: "datetime \<Rightarrow> source \<Rightarrow> nat \<Rightarrow> datetime" where
  "instant_at now s j =
     now - 5 * year_us + int (fake_time s (fake_pos s + j) mod nat (5 * year_us + 1))"

definition row :: "'f floats \<Rightarrow> datetime \<Rightarrow> int \<Rightarrow> source \<Rightarrow> 'f pydict" where
  "row fp now i s =
     [(''TransactionID'', PyInt (i + 1)),
      (''TransactionCode'', PyStr (code_at s)),
      (''ClientID'', PyInt (1 + int (rand_tape s (rand_pos s + 8) mod 100))),
      (''ClientFullName'', PyStr (fake_text s (fake_pos s))),
      (''AgentID'', PyInt (1 + int (rand_tape s (rand_pos s + 9) mod 25))),
      (''AgentFullName'', PyStr (fake_text s (fake_pos s + 1))),
      (''TransactionDate'', PyStr (isoformat (instant_at now s 2))),
      (''Amount'', PyFloat (fl_round fp (fl_uniform fp 10 10000 (rand_tape s (rand_pos s + 10))) 2)),
      (''Currency'', PyStr (pick [''USD'', ''EUR'', ''GBP'', ''INR'', ''AUD'', ''CAD''] s 11)),
      (''OriginalCountry'', PyStr (fake_text s (fake_pos s + 3))),
      (''DestinationCountry'', PyStr (fake_text s (fake_pos s + 4))),
      (''Fee'', PyFloat (fl_round fp (fl_uniform fp 1 50 (rand_tape s (rand_pos s + 12))) 2)),
      (''TransactionStatus'', PyStr (pick [''Completed'', ''Pending'', ''Failed'', ''Cancelled''] s 13)),
      (''StatusDate'', PyStr (isoformat (instant_at now s 5))),
      (''Category'', PyStr (pick [''Send'', ''Receive'', ''Other''] s 14)),
      (''Icon'', PyStr (fake_text s (fake_pos s + 6))),
      (''IsFraudulent'', PyInt (pick [0, 1] s 15))]"

definition advance :: "nat \<Rightarrow> source \<Rightarrow> source" where
  "advance k s = s\<lparr>rand_pos := rand_pos s + 16 * k, fake_pos := fake_pos s + 7 * k\<rparr>"

lemma choices_eq:
  "population \<noteq> [] \<Longrightarrow>
   choices population k s =
     Inr (map (\<lambda>j. population ! (rand_tape s (rand_pos s + j) mod length population)) [0..<k],
          s\<lparr>rand_pos := rand_pos s + k\<rparr>)"
proof (induction k arbitrary: s)
  case 0
  then show ?case by simp
next
  case (Suc k)
  show ?case
    using Suc.prems
    by (simp add: Suc.IH [OF Suc.prems] randbelow_def draw_def map_upt_Suc del: upt_Suc)
qed


lemma join_empty: "join [] xs = concat xs"
  by (induction "[] :: string" xs rule: join.induct) simp_all






lemma generate_transaction_code_eq:
  "generate_transaction_code s = Inr (code_at s, s\<lparr>rand_pos := rand_pos s + 8\<rparr>)"
proof -
  have ne: "alphabet \<noteq> []"
    by (simp add: alphabet_def str_items_def ascii_uppercase_def)
  have pk: "pick alphabet s = (\<lambda>j. alphabet ! (rand_tape s (rand_pos s + j) mod length alphabet))"
    by (rule ext) (simp add: pick_def)
  show ?thesis
    unfolding generate_transaction_code_def and_then_def ret_def code_at_def pk
    using choices_eq [OF ne, of 8 s]
    by (simp add: join_empty alphabet_def)
qed

lemma randint_eq:
  "a \<le> b \<Longrightarrow> randint a b s =
     Inr (a + int (rand_tape s (rand_pos s) mod nat (b + 1 - a)), s\<lparr>rand_pos := Suc (rand_pos s)\<rparr>)"
  by (simp add: randint_def randbelow_def draw_def)

lemma choice_eq:
  "xs \<noteq> [] \<Longrightarrow> choice xs s = Inr (pick xs s 0, s\<lparr>rand_pos := Suc (rand_pos s)\<rparr>)"
  by (simp add: choice_def randbelow_def draw_def pick_def)

lemma uniform_eq:
  "uniform fp a b s = Inr (fl_uniform fp a b (rand_tape s (rand_pos s)), s\<lparr>rand_pos := Suc (rand_pos s)\<rparr>)"
  by (simp add: uniform_def draw_def)

lemma random_datetime_eq:
  "random_datetime ''-5y'' ''now'' now s =
     Inr (instant_at now s 0, s\<lparr>fake_pos := Suc (fake_pos s)\<rparr>)"
  by (simp add: random_datetime_def date_time_between_def parse_date_time_def instant_at_def
      year_us_def)

lemma transaction_eq:
  "transaction fp now i s = Inr (row fp now i s, advance 1 s)"
proof -
  have p: "fake_pos s + 3 = Suc (Suc (Suc (fake_pos s)))"
    "fake_pos s + 4 = Suc (Suc (Suc (Suc (fake_pos s))))"
    "fake_pos s + 5 = Suc (Suc (Suc (Suc (Suc (fake_pos s)))))"
    "fake_pos s + 6 = Suc (Suc (Suc (Suc (Suc (Suc (fake_pos s))))))"
    "fake_pos s + 7 = Suc (Suc (Suc (Suc (Suc (Suc (Suc (fake_pos s)))))))"
    by simp_all
  have q: "rand_pos s + k = k + rand_pos s" for k
    by simp
  show ?thesis
    unfolding transaction_def
    by (simp add: and_then_def ret_def generate_transaction_code_eq randint_eq choice_eq uniform_eq
      random_datetime_eq faker_name_def faker_country_def faker_image_url_def fake_provider_def
      NUM_CLIENTS_def NUM_AGENTS_def row_def advance_def pick_def code_at_def instant_at_def
      round_float_def p q)
qed

lemma transaction_fun:
  "transaction fp now = (\<lambda>i s. Inr (row fp now i s, advance 1 s))"
  by (intro ext) (rule transaction_eq)

lemma advance_advance: "advance j (advance 1 s) = advance (Suc j) s"
  by (simp add: advance_def)

lemma advance_0: "advance 0 s = s"
  by (simp add: advance_def)

lemma comprehension_rows:
  "comprehension (\<lambda>i s. Inr (g i s, advance 1 s)) (map int [k..<k + n]) s =
     Inr (map (\<lambda>j. g (int (k + j)) (advance j s)) [0..<n], advance n s)"
proof (induction n arbitrary: k s)
  case 0
  show ?case by (simp add: advance_0)
next
  case (Suc n)
  have shift: "map int [k..<k + Suc n] = int k # map int [Suc k..<Suc k + n]"
    by (simp add: upt_conv_Cons del: upt_Suc)
  have split: "map (\<lambda>j. g (int (k + j)) (advance j s)) [0..<Suc n] =
               g (int k) s # map (\<lambda>j. g (int (Suc k + j)) (advance j (advance 1 s))) [0..<n]"
    by (simp add: map_upt_Suc advance_0 advance_advance ac_simps del: upt_Suc One_nat_def)
  have "comprehension (\<lambda>i s. Inr (g i s, advance 1 s)) (int k # map int [Suc k..<Suc k + n]) s =
        Inr (g (int k) s # map (\<lambda>j. g (int (Suc k + j)) (advance j (advance 1 s))) [0..<n],
             advance n (advance 1 s))"
    by (simp only: comprehension.simps Suc.IH sum.case prod.case)
  then show ?case
    by (simp only: shift split advance_advance)
qed

lemma transactions_data_eq:
  "transactions_data fp now n s =
     Inr (map (\<lambda>j. row fp now (int j) (advance j s)) [0..<n], advance n s)"
  unfolding transactions_data_def py_range_def transaction_fun
  using comprehension_rows [of "row fp now" 0 n s]
  by simp

lemma ids_upt:
  "map (\<lambda>j. f (int j + 1)) [0..<n] = map (\<lambda>k. f (int k)) [1..<Suc n]"
proof -
  have "map (\<lambda>k. f (int k)) [1..<Suc n] = map (\<lambda>k. f (int k)) (map Suc [0..<n])"
    by (simp only: map_Suc_upt One_nat_def)
  then show ?thesis
    by (simp add: comp_def ac_simps)
qed

section \<open>Properties of the generator\<close>

text \<open>
  C1. For every count \<open>n\<close> (the script ships \<open>NUM_TRANSACTIONS = 1000\<close>) and from every
  state of the random source, the generator does not raise and produces a list of
  exactly \<open>n\<close> records whose \<^verbatim>\<open>TransactionID\<close> values are, in order, 1, 2, ..., \<open>n\<close>.
\<close>

theorem transactions_data_sequential_ids:
  "\<exists>recs s'. transactions_data fp now n s = Inr (recs, s') \<and>
     length recs = n \<and>
     map (\<lambda>r. map_of r ''TransactionID'') recs = map (\<lambda>k. Some (PyInt (int k))) [1..<Suc n]"
proof -
  have "map (\<lambda>r. map_of r ''TransactionID'') (map (\<lambda>j. row fp now (int j) (advance j s)) [0..<n])
        = map (\<lambda>j. Some (PyInt (int j + 1))) [0..<n]"
    by (simp add: row_def comp_def)
  also have "\<dots> = map (\<lambda>k. Some (PyInt (int k))) [1..<Suc n]"
    by (rule ids_upt)
  finally show ?thesis
    by (simp only: transactions_data_eq length_map length_upt) simp
qed

lemma pick_in_set: "xs \<noteq> [] \<Longrightarrow> pick xs s j \<in> set xs"
  by (simp add: pick_def)

lemma row_in_data:
  assumes "transactions_data fp now n s = Inr (recs, s')" and "r \<in> set recs"
  obtains j where "j < n" and "r = row fp now (int j) (advance j s)"
  using assms by (auto simp: transactions_data_eq)

text \<open>
  C8. In every generated record, \<^verbatim>\<open>Currency\<close> is one of USD, EUR, GBP, INR, AUD,
  CAD, \<^verbatim>\<open>TransactionStatus\<close> is one of Completed, Pending, Failed, Cancelled, and
  \<^verbatim>\<open>Category\<close> is one of Send, Receive, Other.
\<close>

theorem enum_fields_in_domain:
  assumes "transactions_data fp now n s = Inr (recs, s')" and "r \<in> set recs"
  shows "(\<exists>c \<in> set [''USD'', ''EUR'', ''GBP'', ''INR'', ''AUD'', ''CAD''].
            map_of r ''Currency'' = Some (PyStr c)) \<and>
         (\<exists>t \<in> set [''Completed'', ''Pending'', ''Failed'', ''Cancelled''].
            map_of r ''TransactionStatus'' = Some (PyStr t)) \<and>
         (\<exists>c \<in> set [''Send'', ''Receive'', ''Other''].
            map_of r ''Category'' = Some (PyStr c))"
proof -
  from assms obtain j where r: "r = row fp now (int j) (advance j s)"
    by (rule row_in_data)
  let ?s = "advance j s"
  have c: "map_of r ''Currency'' = Some (PyStr (pick [''USD'', ''EUR'', ''GBP'', ''INR'', ''AUD'', ''CAD''] ?s 11))"
    and t: "map_of r ''TransactionStatus'' = Some (PyStr (pick [''Completed'', ''Pending'', ''Failed'', ''Cancelled''] ?s 13))"
    and k: "map_of r ''Category'' = Some (PyStr (pick [''Send'', ''Receive'', ''Other''] ?s 14))"
    by (simp_all add: r row_def)
  have "pick [''USD'', ''EUR'', ''GBP'', ''INR'', ''AUD'', ''CAD''] ?s 11
          \<in> set [''USD'', ''EUR'', ''GBP'', ''INR'', ''AUD'', ''CAD'']"
    by (rule pick_in_set) simp
  moreover have "pick [''Completed'', ''Pending'', ''Failed'', ''Cancelled''] ?s 13
          \<in> set [''Completed'', ''Pending'', ''Failed'', ''Cancelled'']"
    by (rule pick_in_set) simp
  moreover have "pick [''Send'', ''Receive'', ''Other''] ?s 14 \<in> set [''Send'', ''Receive'', ''Other'']"
    by (rule pick_in_set) simp
  ultimately show ?thesis
    unfolding c t k by blast
qed

lemma data0: "transactions_data exact_floats now0 1 source0 =
     Inr ([row exact_floats now0 0 source0], advance 1 source0)"
  by (simp add: transactions_data_eq advance_0)

text \<open>The first record of a run on the constant source.\<close>

theorem enum_fields_in_domain_witness:
  "transactions_data exact_floats now0 1 source0 =
     Inr ([row exact_floats now0 0 source0], advance 1 source0) \<and>
   row exact_floats now0 0 source0 \<in> set [row exact_floats now0 0 source0] \<and>
   map_of (row exact_floats now0 0 source0) ''Currency'' = Some (PyStr ''USD'') \<and>
   map_of (row exact_floats now0 0 source0) ''TransactionStatus'' = Some (PyStr ''Completed'') \<and>
   map_of (row exact_floats now0 0 source0) ''Category'' = Some (PyStr ''Send'') \<and>
   (\<exists>c \<in> set [''USD'', ''EUR'', ''GBP'', ''INR'', ''AUD'', ''CAD''].
      map_of (row exact_floats now0 0 source0) ''Currency'' = Some (PyStr c)) \<and>
   (\<exists>t \<in> set [''Completed'', ''Pending'', ''Failed'', ''Cancelled''].
      map_of (row exact_floats now0 0 source0) ''TransactionStatus'' = Some (PyStr t)) \<and>
   (\<exists>c \<in> set [''Send'', ''Receive'', ''Other''].
      map_of (row exact_floats now0 0 source0) ''Category'' = Some (PyStr c))"
proof -
  have mem: "row exact_floats now0 0 source0 \<in> set [row exact_floats now0 0 source0]"
    by simp
  have vals: "map_of (row exact_floats now0 0 source0) ''Currency'' = Some (PyStr ''USD'')"
    "map_of (row exact_floats now0 0 source0) ''TransactionStatus'' = Some (PyStr ''Completed'')"
    "map_of (row exact_floats now0 0 source0) ''Category'' = Some (PyStr ''Send'')"
    by (simp_all add: row_def pick_def source0_def)
  show ?thesis
    using enum_fields_in_domain [OF data0 mem] data0 mem vals by blast
qed

lemma alphabet_items:
  "x \<in> set alphabet \<Longrightarrow> length x = 1 \<and> list_all upper_or_digit x"
  by (auto simp: alphabet_def str_items_def ascii_uppercase_def digits_def upper_or_digit_def)

lemma alphabet_nonempty: "alphabet \<noteq> []"
  by (simp add: alphabet_def str_items_def ascii_uppercase_def)

lemma concat_items:
  "(\<And>x. x \<in> set xs \<Longrightarrow> length x = 1 \<and> list_all P x) \<Longrightarrow>
   length (concat xs) = length xs \<and> list_all P (concat xs)"
  by (induction xs) auto

lemma code_at_matches: "matches_txn_pattern (code_at s)"
proof -
  let ?picked = "map (pick alphabet s) [0..<8]"
  have "x \<in> set ?picked \<Longrightarrow> length x = 1 \<and> list_all upper_or_digit x" for x
    using alphabet_items pick_in_set [OF alphabet_nonempty] by auto
  then have "length (concat ?picked) = length ?picked \<and> list_all upper_or_digit (concat ?picked)"
    by (rule concat_items)
  then show ?thesis
    by (simp add: matches_txn_pattern_def code_at_def)
qed

lemma row_code: "map_of (row fp now i s) ''TransactionCode'' = Some (PyStr (code_at s))"
  by (simp add: row_def)

lemma data_two:
  "transactions_data fp now 2 s =
     Inr ([row fp now 0 s, row fp now 1 (advance 1 s)], advance 2 s)"
  by (simp add: transactions_data_eq advance_0 numeral_2_eq_2)

lemma code_at_source0: "code_at (advance j source0) = ''TXN-AAAAAAAA''"
  by (simp add: code_at_def pick_def advance_def source0_def alphabet_def str_items_def
      ascii_uppercase_def digits_def upt_rec)

text \<open>
  C7. Every generated \<^verbatim>\<open>TransactionCode\<close> matches \<^verbatim>\<open>TXN-[A-Z0-9]{8}\<close>: the prefix
  \<^verbatim>\<open>TXN-\<close> and exactly eight characters, each an uppercase letter or a digit. Nothing
  makes the codes unique: some outcome of the source gives two records of one run the
  same code.
\<close>

theorem transaction_code_pattern:
  "(\<forall>recs s'. transactions_data fp now n s = Inr (recs, s') \<longrightarrow>
      (\<forall>r \<in> set recs. \<exists>c. map_of r ''TransactionCode'' = Some (PyStr c) \<and> matches_txn_pattern c)) \<and>
   (\<exists>s0 recs s'. transactions_data fp now 2 s0 = Inr (recs, s') \<and>
      map_of (recs ! 0) ''TransactionID'' \<noteq> map_of (recs ! 1) ''TransactionID'' \<and>
      map_of (recs ! 0) ''TransactionCode'' = map_of (recs ! 1) ''TransactionCode'')"
proof (intro conjI allI impI ballI)
  fix recs s' r
  assume "transactions_data fp now n s = Inr (recs, s')" and "r \<in> set recs"
  then obtain j where "r = row fp now (int j) (advance j s)"
    by (rule row_in_data)
  then show "\<exists>c. map_of r ''TransactionCode'' = Some (PyStr c) \<and> matches_txn_pattern c"
    by (simp add: row_code code_at_matches)
next
  have "map_of (row fp now 0 source0) ''TransactionID''
          \<noteq> map_of (row fp now 1 (advance 1 source0)) ''TransactionID''"
    by (simp add: row_def)
  moreover have "map_of (row fp now 0 source0) ''TransactionCode''
          = map_of (row fp now 1 (advance 1 source0)) ''TransactionCode''"
    using code_at_source0 [of 0] code_at_source0 [of 1] by (simp add: row_code advance_0)
  ultimately have "transactions_data fp now 2 source0 =
        Inr ([row fp now 0 source0, row fp now 1 (advance 1 source0)], advance 2 source0) \<and>
      map_of ([row fp now 0 source0, row fp now 1 (advance 1 source0)] ! 0) ''TransactionID''
        \<noteq> map_of ([row fp now 0 source0, row fp now 1 (advance 1 source0)] ! 1) ''TransactionID'' \<and>
      map_of ([row fp now 0 source0, row fp now 1 (advance 1 source0)] ! 0) ''TransactionCode''
        = map_of ([row fp now 0 source0, row fp now 1 (advance 1 source0)] ! 1) ''TransactionCode''"
    using data_two [of fp now source0] by simp
  then show "\<exists>s0 recs s'. transactions_data fp now 2 s0 = Inr (recs, s') \<and>
      map_of (recs ! 0) ''TransactionID'' \<noteq> map_of (recs ! 1) ''TransactionID'' \<and>
      map_of (recs ! 0) ''TransactionCode'' = map_of (recs ! 1) ''TransactionCode''"
    by (intro exI)
qed

text \<open>The code of the first record on the constant source.\<close>

theorem transaction_code_pattern_witness:
  "transactions_data exact_floats now0 1 source0 =
     Inr ([row exact_floats now0 0 source0], advance 1 source0) \<and>
   row exact_floats now0 0 source0 \<in> set [row exact_floats now0 0 source0] \<and>
   map_of (row exact_floats now0 0 source0) ''TransactionCode'' = Some (PyStr ''TXN-AAAAAAAA'') \<and>
   matches_txn_pattern ''TXN-AAAAAAAA''"
proof -
  have mem: "row exact_floats now0 0 source0 \<in> set [row exact_floats now0 0 source0]"
    by simp
  have val: "map_of (row exact_floats now0 0 source0) ''TransactionCode'' = Some (PyStr ''TXN-AAAAAAAA'')"
    using code_at_source0 [of 0] by (simp add: row_code advance_0)
  from transaction_code_pattern [of exact_floats now0 1 source0] data0 mem
  obtain c where "map_of (row exact_floats now0 0 source0) ''TransactionCode'' = Some (PyStr c)"
    and "matches_txn_pattern c"
    by blast
  with val have "matches_txn_pattern ''TXN-AAAAAAAA''"
    by simp
  with data0 mem val show ?thesis
    by blast
qed

(*LEMMAS*)

end
